theory Spec2Isabelle
  imports Main "HOL-Library.Word"
begin

unbundle bit_operations_syntax

section \<open>Data model of \<^verbatim>\<open>audio/wav_to_pcm.hpp\<close>\<close>

text \<open>
  The header provides one operation, \<^verbatim>\<open>Convert_WAV(inFile, outData)\<close>. It queries the
  filesystem about \<^verbatim>\<open>inFile\<close>, loads the whole file into a \<^verbatim>\<open>vector<u8>\<close>, validates the
  fixed-offset header fields, scans for the \<^verbatim>\<open>data\<close> literal and copies the payload into
  the caller's \<^verbatim>\<open>PCMData_WAV\<close> slot.

  Fixed-width unsigned integers are words. \<^verbatim>\<open>size_t\<close> is taken as 64 bits wide and
  written as a natural number, with the wrap-around modulo \<open>2 ^ 64\<close> written out in the
  one sum whose operands come from the file (\<^verbatim>\<open>dataOffset + dataSize\<close>).
\<close>

type_synonym u8 = "8 word"
type_synonym u16 = "16 word"
type_synonym u32 = "32 word"

definition EXPECTED_DATA_POS_START :: nat where
  "EXPECTED_DATA_POS_START = 12"

definition ALLOWED_SAMPLE_RATES :: "u32 list" where
  "ALLOWED_SAMPLE_RATES = [44100, 48000, 96000, 192000]"

definition ALLOWED_CHANNELS :: "u8 list" where
  "ALLOWED_CHANNELS = [1, 2]"

definition ALLOWED_BPS :: "u8 list" where
  "ALLOWED_BPS = [16, 24, 32]"

datatype ConvertResult_WAV =
    RESULT_SUCCESS
  | RESULT_FILE_NOT_FOUND
  | RESULT_INVALID_EXTENSION
  | RESULT_UNAUTHORIZED_READ
  | RESULT_FILE_LOCKED
  | RESULT_UNKNOWN_READ_ERROR
  | RESULT_FILE_EMPTY
  | RESULT_UNSUPPORTED_FILE_SIZE
  | RESULT_INVALID_RIFF_MAGIC
  | RESULT_INVALID_WAVE_MAGIC
  | RESULT_INVALID_FMT_CHUNK
  | RESULT_INVALID_FORMAT_TYPE
  | RESULT_UNSUPPORTED_WAV_FORMAT
  | RESULT_UNSUPPORTED_CHANNELS
  | RESULT_UNSUPPORTED_SAMPLE_RATE
  | RESULT_UNSUPPORTED_BITS_PER_SAMPLE
  | RESULT_MISSING_DATA_CHUNK

record PCMData_WAV =
  pcmData :: "u8 list"
  sampleRate :: u32
  bitsPerSample :: u8
  channels :: u8

text \<open>\<^verbatim>\<open>std::find(...) != end()\<close> over the three constant arrays is list membership.\<close>

definition ContainsSampleRate :: "u32 \<Rightarrow> bool" where
  "ContainsSampleRate sr \<longleftrightarrow> sr \<in> set ALLOWED_SAMPLE_RATES"

definition ContainsChannel :: "u8 \<Rightarrow> bool" where
  "ContainsChannel c \<longleftrightarrow> c \<in> set ALLOWED_CHANNELS"

definition ContainsBPS :: "u8 \<Rightarrow> bool" where
  "ContainsBPS bps \<longleftrightarrow> bps \<in> set ALLOWED_BPS"

subsection \<open>What the filesystem answers about \<^verbatim>\<open>inFile\<close>\<close>

text \<open>
  \<^verbatim>\<open>Convert_WAV\<close> asks the filesystem a fixed list of questions about its path argument.
  The record holds the answers: \<^verbatim>\<open>exists\<close>, \<^verbatim>\<open>is_regular_file\<close>, \<^verbatim>\<open>extension()\<close> (empty
  exactly when \<^verbatim>\<open>has_extension()\<close> is false), the three read permission bits of
  \<^verbatim>\<open>status(inFile).permissions()\<close>, whether the \<^verbatim>\<open>ifstream\<close> is in the failed state after
  construction together with the value of \<^verbatim>\<open>errno\<close> at that moment, and the bytes of the
  file. The queries are taken to answer: an exception of \<^verbatim>\<open>std::filesystem\<close> raised by one
  of them (they stand before the \<^verbatim>\<open>try\<close> block) is not part of the model, and the file
  does not change between the query of its size and the read.
\<close>

record file_view =
  fv_exists :: bool
  fv_is_regular_file :: bool
  fv_extension :: string
  fv_owner_read :: bool
  fv_group_read :: bool
  fv_others_read :: bool
  fv_stream_fail :: bool
  fv_errno :: nat
  fv_bytes :: "u8 list"

definition has_extension :: "file_view \<Rightarrow> bool" where
  "has_extension inFile \<longleftrightarrow> fv_extension inFile \<noteq> []"

text \<open>The two \<^verbatim>\<open>errno\<close> codes the source compares against, with their Linux values.\<close>

definition EBUSY :: nat where
  "EBUSY = 16"

definition ETXTBSY :: nat where
  "ETXTBSY = 26"

text \<open>
  \<^verbatim>\<open>static_cast<size_t>(in.tellg())\<close>: a failed stream reports position \<open>-1\<close>, which
  converts to the largest \<^verbatim>\<open>size_t\<close>; otherwise the position after seeking to the end is the
  length of the file.
\<close>

definition SIZE_MAX :: nat where
  "SIZE_MAX = 2 ^ 64 - 1"

definition tellg_end :: "file_view \<Rightarrow> nat" where
  "tellg_end inFile = (if fv_stream_fail inFile then SIZE_MAX else length (fv_bytes inFile))"

text \<open>
  \<^verbatim>\<open>vector<u8> rawData(fileSize)\<close> throws \<^verbatim>\<open>std::length_error\<close> when the requested size
  exceeds \<^verbatim>\<open>max_size()\<close>, which is \<^verbatim>\<open>PTRDIFF_MAX\<close> for a byte vector; the \<^verbatim>\<open>catch (...)\<close>
  block turns that into \<^verbatim>\<open>RESULT_UNKNOWN_READ_ERROR\<close>. Requests within that limit are
  taken to succeed (exhaustion of memory is not part of the model).
\<close>

definition vector_max_size :: nat where
  "vector_max_size = 2 ^ 63 - 1"

subsection \<open>Reading the loaded buffer\<close>

text \<open>
  Reading past the end of \<^verbatim>\<open>rawData\<close> is undefined behaviour in the source. The model
  makes it a result of its own, so that a run that ends in \<open>Returned\<close> performed every
  one of its reads inside the buffer.
\<close>

datatype undefined_behaviour =
    ReadPastEnd nat nat
  | InvalidRange nat nat

datatype outcome =
    Returned ConvertResult_WAV PCMData_WAV
  | Undefined undefined_behaviour

definition in_bounds :: "u8 list \<Rightarrow> nat \<Rightarrow> nat \<Rightarrow> bool" where
  "in_bounds buf off n \<longleftrightarrow> off + n \<le> length buf"

definition bytes_at :: "u8 list \<Rightarrow> nat \<Rightarrow> nat \<Rightarrow> u8 list" where
  "bytes_at buf off n = take n (drop off buf)"

definition lit :: "string \<Rightarrow> u8 list" where
  "lit s = map of_char s"

text \<open>
  \<^verbatim>\<open>memcpy\<close> of \<open>n\<close> bytes into a zero-initialised unsigned integer on a little-endian
  host: the first byte is the least significant one.
\<close>

fun le_nat :: "u8 list \<Rightarrow> nat" where
  "le_nat [] = 0"
| "le_nat (b # bs) = unat b + 256 * le_nat bs"

definition read_u16 :: "u8 list \<Rightarrow> nat \<Rightarrow> u16" where
  "read_u16 buf off = word_of_nat (le_nat (bytes_at buf off 2))"

definition read_u32 :: "u8 list \<Rightarrow> nat \<Rightarrow> u32" where
  "read_u32 buf off = word_of_nat (le_nat (bytes_at buf off 4))"

subsection \<open>The scan for the \<^verbatim>\<open>data\<close> chunk\<close>

text \<open>
  \<^verbatim>\<open>for (size_t i = EXPECTED_DATA_POS_START; i + 8 < rawData.size(); ++i)\<close>, leaving at the
  first position where the four bytes are \<^verbatim>\<open>data\<close>. The result is the pair
  \<^verbatim>\<open>(dataOffset, dataSize)\<close>, both still zero when the loop runs out. The loop guard keeps
  \<open>i + 8\<close> below the buffer size, which is at most \<open>vector_max_size\<close>, so the index
  arithmetic does not wrap and both reads of the body stay inside the buffer.
\<close>

function find_data :: "u8 list \<Rightarrow> nat \<Rightarrow> nat \<times> nat" where
  "find_data rawData i =
     (if i + 8 < length rawData
      then (if bytes_at rawData i 4 = lit ''data''
            then (i + 8, le_nat (bytes_at rawData (i + 4) 4))
            else find_data rawData (i + 1))
      else (0, 0))"
  by pat_completeness auto
termination
  by (relation "measure (\<lambda>(rawData, i). length rawData - i)") auto

declare find_data.simps [simp del]

subsection \<open>\<^verbatim>\<open>Convert_WAV\<close>\<close>

text \<open>
  Lines 284 to 354 of the source, the sections "PARSE FOUND DATA" and "FINISHED PARSE,
  SEND DATA OUT": every \<^verbatim>\<open>memcmp\<close> and \<^verbatim>\<open>memcpy\<close> on \<^verbatim>\<open>rawData\<close> in source order, each
  preceded by the test whether it stays inside the buffer. \<^verbatim>\<open>dataSize\<close> is a \<^verbatim>\<open>size_t\<close>
  that starts at zero and receives four bytes, so it is below \<open>2 ^ 32\<close>;
  \<^verbatim>\<open>reserve(dataSize)\<close> is therefore within \<^verbatim>\<open>max_size()\<close> and is taken to succeed.
  \<^verbatim>\<open>assign(first, last)\<close> copies the bytes from \<open>dataOffset\<close> up to \<open>dataEnd\<close>; a range
  whose end lies before its start is undefined behaviour. The second component of
  \<open>Returned\<close> is the caller's slot after the call: \<^verbatim>\<open>outData\<close> is assigned on the last line
  before the success return and nowhere else.
\<close>

definition parse_found_data :: "u8 list \<Rightarrow> PCMData_WAV \<Rightarrow> outcome" where
  "parse_found_data rawData outData =
    (if \<not> in_bounds rawData 0 4 then Undefined (ReadPastEnd 0 4)
     else if bytes_at rawData 0 4 \<noteq> lit ''RIFF'' then Returned RESULT_INVALID_RIFF_MAGIC outData
     else if \<not> in_bounds rawData 8 4 then Undefined (ReadPastEnd 8 4)
     else if bytes_at rawData 8 4 \<noteq> lit ''WAVE'' then Returned RESULT_INVALID_WAVE_MAGIC outData
     else if \<not> in_bounds rawData 12 4 then Undefined (ReadPastEnd 12 4)
     else if bytes_at rawData 12 4 \<noteq> lit ''fmt '' then Returned RESULT_INVALID_FMT_CHUNK outData
     else if \<not> in_bounds rawData 20 2 then Undefined (ReadPastEnd 20 2)
     else
       let audioFormat = read_u16 rawData 20 in
       if audioFormat \<noteq> 1 then Returned RESULT_INVALID_FORMAT_TYPE outData
       else if \<not> in_bounds rawData 22 2 then Undefined (ReadPastEnd 22 2)
       else if \<not> in_bounds rawData 24 4 then Undefined (ReadPastEnd 24 4)
       else if \<not> in_bounds rawData 34 2 then Undefined (ReadPastEnd 34 2)
       else
         let channels = read_u16 rawData 22;
             correctSampleRate = read_u32 rawData 24;
             bitsPerSample = read_u16 rawData 34;
             correctChannels = (ucast channels :: u8);
             correctBPS = (ucast bitsPerSample :: u8)
         in
         if \<not> ContainsSampleRate correctSampleRate
           then Returned RESULT_UNSUPPORTED_SAMPLE_RATE outData
         else if \<not> ContainsChannel correctChannels
           then Returned RESULT_UNSUPPORTED_CHANNELS outData
         else if \<not> ContainsBPS correctBPS
           then Returned RESULT_UNSUPPORTED_BITS_PER_SAMPLE outData
         else
           let (dataOffset, dataSize) = find_data rawData EXPECTED_DATA_POS_START;
               dataEnd = min (length rawData) ((dataOffset + dataSize) mod 2 ^ 64)
           in
           if dataOffset = 0 \<or> dataOffset \<ge> length rawData
             then Returned RESULT_MISSING_DATA_CHUNK outData
           else if dataEnd < dataOffset
             then Undefined (InvalidRange dataOffset dataEnd)
           else Returned RESULT_SUCCESS
                  \<lparr> pcmData = take (dataEnd - dataOffset) (drop dataOffset rawData),
                    sampleRate = correctSampleRate,
                    bitsPerSample = correctBPS,
                    channels = correctChannels \<rparr>)"

text \<open>
  The whole function: the pre-read checks, the attempt to open, the two size checks, the
  allocation of the buffer, then the parse above. After a successful open the buffer
  holds the bytes of the file.
\<close>

definition Convert_WAV :: "file_view \<Rightarrow> PCMData_WAV \<Rightarrow> outcome" where
  "Convert_WAV inFile outData =
    (if \<not> fv_exists inFile then Returned RESULT_FILE_NOT_FOUND outData
     else if \<not> fv_is_regular_file inFile
             \<or> \<not> has_extension inFile
             \<or> fv_extension inFile \<noteq> ''.wav''
       then Returned RESULT_INVALID_EXTENSION outData
     else
       let canRead = (fv_owner_read inFile \<or> fv_group_read inFile \<or> fv_others_read inFile) in
       if \<not> canRead then Returned RESULT_UNAUTHORIZED_READ outData
       else if fv_stream_fail inFile \<and> fv_errno inFile \<noteq> 0
         then (if fv_errno inFile = EBUSY \<or> fv_errno inFile = ETXTBSY
               then Returned RESULT_FILE_LOCKED outData
               else Returned RESULT_UNKNOWN_READ_ERROR outData)
       else
         let fileSize = tellg_end inFile in
         if fileSize = 0 then Returned RESULT_FILE_EMPTY outData
         else if fileSize \<le> EXPECTED_DATA_POS_START
           then Returned RESULT_UNSUPPORTED_FILE_SIZE outData
         else if fileSize > vector_max_size
           then Returned RESULT_UNKNOWN_READ_ERROR outData
         else parse_found_data (fv_bytes inFile) outData)"

text \<open>
  A readable \<^verbatim>\<open>.wav\<close> file: the path passes the pre-read checks and the stream opens.
\<close>

definition readable_wav :: "file_view \<Rightarrow> bool" where
  "readable_wav inFile \<longleftrightarrow>
     fv_exists inFile \<and> fv_is_regular_file inFile \<and> fv_extension inFile = ''.wav''
     \<and> (fv_owner_read inFile \<or> fv_group_read inFile \<or> fv_others_read inFile)
     \<and> \<not> fv_stream_fail inFile"

text \<open>A loaded buffer: the file is readable and its size is one a byte vector can have.\<close>

definition loads :: "file_view \<Rightarrow> bool" where
  "loads inFile \<longleftrightarrow> readable_wav inFile \<and> length (fv_bytes inFile) \<le> vector_max_size"

text \<open>A regular, world-readable file \<^verbatim>\<open>*.wav\<close> with the given content, used for examples.\<close>

definition wav_file :: "u8 list \<Rightarrow> file_view" where
  "wav_file bs = \<lparr> fv_exists = True, fv_is_regular_file = True, fv_extension = ''.wav'',
                   fv_owner_read = True, fv_group_read = True, fv_others_read = True,
                   fv_stream_fail = False, fv_errno = 0, fv_bytes = bs \<rparr>"

definition empty_slot :: PCMData_WAV where
  "empty_slot = \<lparr> pcmData = [], sampleRate = 0, bitsPerSample = 0, channels = 0 \<rparr>"

subsection \<open>Files laid out as the format table of the source describes\<close>

text \<open>
  The bytes a little-endian writer stores for a 16-bit and a 32-bit field, and a file
  whose 44-byte header follows the table at the top of the source with
  \<^verbatim>\<open>Subchunk1Size = 16\<close>: the \<^verbatim>\<open>data\<close> marker is at offset 36, the declared size at 40
  and the payload starts at 44.
\<close>

definition u16_bytes :: "u16 \<Rightarrow> u8 list" where
  "u16_bytes n = [ucast n, ucast (drop_bit 8 n)]"

definition u32_bytes :: "u32 \<Rightarrow> u8 list" where
  "u32_bytes n = [ucast n, ucast (drop_bit 8 n), ucast (drop_bit 16 n), ucast (drop_bit 24 n)]"

definition wav_layout ::
  "u32 \<Rightarrow> u16 \<Rightarrow> u16 \<Rightarrow> u32 \<Rightarrow> u32 \<Rightarrow> u16 \<Rightarrow> u16 \<Rightarrow> u32 \<Rightarrow> u8 list \<Rightarrow> u8 list" where
  "wav_layout chunkSize audioFormat numChannels sampleRate' byteRate blockAlign bitsPerSample'
      dataSize payload =
     lit ''RIFF'' @ u32_bytes chunkSize @ lit ''WAVE''
     @ lit ''fmt '' @ u32_bytes 16 @ u16_bytes audioFormat @ u16_bytes numChannels
     @ u32_bytes sampleRate' @ u32_bytes byteRate @ u16_bytes blockAlign
     @ u16_bytes bitsPerSample'
     @ lit ''data'' @ u32_bytes dataSize @ payload"

text \<open>
  The minimal stereo, 44100 Hz, 16-bit PCM file: byte rate \<open>44100 * 2 * 2\<close>, block
  alignment \<open>4\<close>, and a declared data size \<open>n\<close>.
\<close>

definition minimal_wav :: "u32 \<Rightarrow> u32 \<Rightarrow> u8 list \<Rightarrow> u8 list" where
  "minimal_wav chunkSize n payload = wav_layout chunkSize 1 2 44100 176400 4 16 n payload"

text \<open>
  The fixed-offset part of the parse accepts the buffer: every header field lies inside
  it, the three literals match and the audio format is 1 (\<open>magic_accepted\<close>); moreover
  the three format fields are in their allow-lists (\<open>header_accepted\<close>).
\<close>

definition magic_accepted :: "u8 list \<Rightarrow> bool" where
  "magic_accepted rawData \<longleftrightarrow>
     36 \<le> length rawData
     \<and> bytes_at rawData 0 4 = lit ''RIFF''
     \<and> bytes_at rawData 8 4 = lit ''WAVE''
     \<and> bytes_at rawData 12 4 = lit ''fmt ''
     \<and> read_u16 rawData 20 = 1"

definition header_accepted :: "u8 list \<Rightarrow> bool" where
  "header_accepted rawData \<longleftrightarrow>
     magic_accepted rawData
     \<and> ContainsSampleRate (read_u32 rawData 24)
     \<and> ContainsChannel (ucast (read_u16 rawData 22))
     \<and> ContainsBPS (ucast (read_u16 rawData 34))"


text \<open>
  Two more example values: a directory whose name ends in \<^verbatim>\<open>.wav\<close> (it exists, and it is
  not a regular file), and an output slot that already holds data from an earlier call.
\<close>

definition directory_wav :: file_view where
  "directory_wav = (wav_file []) \<lparr> fv_is_regular_file := False \<rparr>"

definition used_slot :: PCMData_WAV where
  "used_slot = \<lparr> pcmData = [1, 2, 3], sampleRate = 48000, bitsPerSample = 24, channels = 1 \<rparr>"

section \<open>Basic facts\<close>

lemma readable_wav_file [simp]: "readable_wav (wav_file bs)"
  by (simp add: readable_wav_def wav_file_def)

lemma bytes_wav_file [simp]: "fv_bytes (wav_file bs) = bs"
  by (simp add: wav_file_def)

lemma Convert_WAV_readable:
  assumes "readable_wav inFile"
  shows "Convert_WAV inFile outData =
    (if length (fv_bytes inFile) = 0 then Returned RESULT_FILE_EMPTY outData
     else if length (fv_bytes inFile) \<le> 12 then Returned RESULT_UNSUPPORTED_FILE_SIZE outData
     else if length (fv_bytes inFile) > vector_max_size
       then Returned RESULT_UNKNOWN_READ_ERROR outData
     else parse_found_data (fv_bytes inFile) outData)"
  using assms
  by (simp add: readable_wav_def Convert_WAV_def has_extension_def tellg_end_def
      EXPECTED_DATA_POS_START_def)

subsection \<open>Little-endian fields\<close>

lemma le_nat_bound: "le_nat bs < 256 ^ length bs"
proof (induction bs)
  case Nil
  show ?case by simp
next
  case (Cons b bs)
  have "unat b < 256"
    using unsigned_less [of b, where ?'a = nat] by simp
  with Cons show ?case by simp
qed

lemma le_nat_4_bound: "le_nat (bytes_at buf off 4) < 2 ^ 32"
proof -
  have "length (bytes_at buf off 4) \<le> 4"
    by (simp add: bytes_at_def)
  then have "(256::nat) ^ length (bytes_at buf off 4) \<le> 256 ^ 4"
    by (intro power_increasing) simp_all
  with le_nat_bound [of "bytes_at buf off 4"] show ?thesis by simp
qed

lemma nat_bytes2:
  assumes "(x::nat) < 2 ^ 16"
  shows "x mod 256 + 256 * (x div 256 mod 256) = x"
proof -
  have "x div 256 mod 256 = x div 256"
    using assms by (simp add: less_mult_imp_div_less)
  then show ?thesis by (simp only: mod_mult_div_eq)
qed

lemma nat_bytes4:
  assumes "(x::nat) < 2 ^ 32"
  shows "x mod 256 + 256 * (x div 256 mod 256 + 256 * (x div 65536 mod 256
           + 256 * (x div 16777216 mod 256))) = x"
proof -
  have d2: "x div 65536 = x div 256 div 256"
    using div_mult2_eq [of x 256 256] by simp
  have d3: "x div 16777216 = x div 256 div 256 div 256"
    using div_mult2_eq [of x 65536 256] d2 by simp
  have top: "x div 256 div 256 div 256 mod 256 = x div 256 div 256 div 256"
    using assms d3 by (simp add: less_mult_imp_div_less)
  show ?thesis unfolding d2 d3 top by (simp only: mod_mult_div_eq)
qed

lemma le_nat_u16_bytes: "le_nat (u16_bytes n) = unat n"
proof -
  have "unat n < 2 ^ 16"
    using unsigned_less [of n, where ?'a = nat] by simp
  from nat_bytes2 [OF this] show ?thesis
    by (simp add: u16_bytes_def unsigned_ucast_eq unat_drop_bit_eq take_bit_eq_mod
        drop_bit_eq_div unat_div_distrib)
qed

lemma le_nat_u32_bytes: "le_nat (u32_bytes n) = unat n"
proof -
  have lt: "unat n < 2 ^ 32"
    using unsigned_less [of n, where ?'a = nat] by simp
  then have top: "unat n div 16777216 mod 256 = unat n div 16777216"
    by (simp add: less_mult_imp_div_less)
  from nat_bytes4 [OF lt] top show ?thesis
    by (simp add: u32_bytes_def unsigned_ucast_eq unat_drop_bit_eq take_bit_eq_mod
        drop_bit_eq_div unat_div_distrib)
qed

subsection \<open>The scan\<close>

lemma find_data_skip:
  "i + 8 < length rawData \<Longrightarrow> bytes_at rawData i 4 \<noteq> lit ''data''
   \<Longrightarrow> find_data rawData i = find_data rawData (Suc i)"
  by (subst find_data.simps) simp

lemma find_data_hit:
  "i + 8 < length rawData \<Longrightarrow> bytes_at rawData i 4 = lit ''data''
   \<Longrightarrow> find_data rawData i = (i + 8, le_nat (bytes_at rawData (i + 4) 4))"
  by (subst find_data.simps) simp

lemma find_data_end:
  "\<not> i + 8 < length rawData \<Longrightarrow> find_data rawData i = (0, 0)"
  by (subst find_data.simps) simp

lemma find_data_reads_in_bounds:
  "i + 8 < length rawData \<Longrightarrow> in_bounds rawData i 4 \<and> in_bounds rawData (i + 4) 4"
  by (simp add: in_bounds_def)

lemma find_data_range:
  "find_data rawData i = (off, dsz) \<Longrightarrow>
     (off = 0 \<and> dsz = 0) \<or> (i + 8 \<le> off \<and> off < length rawData \<and> dsz < 2 ^ 32)"
proof (induction rawData i rule: find_data.induct)
  case (1 rawData i)
  show ?case
  proof (cases "i + 8 < length rawData")
    case False
    with "1.prems" show ?thesis by (simp add: find_data_end)
  next
    case True
    show ?thesis
    proof (cases "bytes_at rawData i 4 = lit ''data''")
      case True
      with \<open>i + 8 < length rawData\<close> "1.prems" le_nat_4_bound [of rawData "i + 4"]
      show ?thesis by (auto simp add: find_data_hit)
    next
      case False
      with \<open>i + 8 < length rawData\<close> "1.prems"
      have "find_data rawData (i + 1) = (off, dsz)"
        by (simp add: find_data_skip)
      from "1.IH" [OF \<open>i + 8 < length rawData\<close> False this] show ?thesis by auto
    qed
  qed
qed

lemma find_data_no_match:
  "(\<forall>j. i \<le> j \<and> j + 8 < length rawData \<longrightarrow> bytes_at rawData j 4 \<noteq> lit ''data'')
   \<Longrightarrow> find_data rawData i = (0, 0)"
proof (induction rawData i rule: find_data.induct)
  case (1 rawData i)
  show ?case
  proof (cases "i + 8 < length rawData")
    case False
    then show ?thesis by (simp add: find_data_end)
  next
    case True
    with "1.prems" have ne: "bytes_at rawData i 4 \<noteq> lit ''data''" by simp
    have "find_data rawData (i + 1) = (0, 0)"
      using "1.prems" by (intro "1.IH" [OF True ne]) simp
    with True ne show ?thesis by (simp add: find_data_skip)
  qed
qed


subsection \<open>The parse\<close>

lemma parse_magic_accepted:
  assumes "magic_accepted rawData"
  shows "parse_found_data rawData outData =
    (if \<not> ContainsSampleRate (read_u32 rawData 24)
       then Returned RESULT_UNSUPPORTED_SAMPLE_RATE outData
     else if \<not> ContainsChannel (ucast (read_u16 rawData 22))
       then Returned RESULT_UNSUPPORTED_CHANNELS outData
     else if \<not> ContainsBPS (ucast (read_u16 rawData 34))
       then Returned RESULT_UNSUPPORTED_BITS_PER_SAMPLE outData
     else
       let (dataOffset, dataSize) = find_data rawData 12;
           dataEnd = min (length rawData) ((dataOffset + dataSize) mod 2 ^ 64)
       in
       if dataOffset = 0 \<or> dataOffset \<ge> length rawData
         then Returned RESULT_MISSING_DATA_CHUNK outData
       else if dataEnd < dataOffset
         then Undefined (InvalidRange dataOffset dataEnd)
       else Returned RESULT_SUCCESS
              \<lparr> pcmData = take (dataEnd - dataOffset) (drop dataOffset rawData),
                sampleRate = read_u32 rawData 24,
                bitsPerSample = ucast (read_u16 rawData 34),
                channels = ucast (read_u16 rawData 22) \<rparr>)"
  using assms
  by (simp add: magic_accepted_def parse_found_data_def in_bounds_def
      EXPECTED_DATA_POS_START_def Let_def)

lemma no_wrap:
  assumes "off < length rawData" "length rawData \<le> vector_max_size" "dsz < 2 ^ 32"
  shows "(off + dsz) mod 2 ^ 64 = off + dsz"
proof -
  have "off + dsz < 2 ^ 63 + 2 ^ 32"
    using assms by (simp add: vector_max_size_def)
  also have "\<dots> < (2::nat) ^ 64" by simp
  finally show ?thesis by simp
qed

lemma parse_header_accepted:
  assumes "header_accepted rawData" "length rawData \<le> vector_max_size"
    "find_data rawData 12 = (off, dsz)"
  shows "parse_found_data rawData outData =
    (if off = 0 then Returned RESULT_MISSING_DATA_CHUNK outData
     else Returned RESULT_SUCCESS
            \<lparr> pcmData = bytes_at rawData off (min (length rawData) (off + dsz) - off),
              sampleRate = read_u32 rawData 24,
              bitsPerSample = ucast (read_u16 rawData 34),
              channels = ucast (read_u16 rawData 22) \<rparr>)"
proof (cases "off = 0")
  case True
  with assms show ?thesis
    by (simp add: header_accepted_def parse_magic_accepted)
next
  case False
  with find_data_range [OF assms(3)]
  have r: "off < length rawData" "dsz < 2 ^ 32" by auto
  have w: "(off + dsz) mod 2 ^ 64 = off + dsz"
    by (rule no_wrap [OF r(1) assms(2) r(2)])
  then have w': "(off + dsz) mod 18446744073709551616 = off + dsz"
    by simp
  from assms False r show ?thesis
    by (simp add: header_accepted_def parse_magic_accepted w' bytes_at_def Let_def)
qed

lemma parse_found_data_frame:
  "parse_found_data rawData outData = Returned r out' \<Longrightarrow> r \<noteq> RESULT_SUCCESS
   \<Longrightarrow> out' = outData"
  by (auto simp add: parse_found_data_def Let_def split: if_splits prod.splits)

lemma parse_found_data_not_reserved:
  "parse_found_data rawData outData \<noteq> Returned RESULT_UNSUPPORTED_WAV_FORMAT out'"
  by (auto simp add: parse_found_data_def Let_def split: if_splits prod.splits)

lemma parse_format_type:
  assumes "22 \<le> length rawData"
    "bytes_at rawData 0 4 = lit ''RIFF''" "bytes_at rawData 8 4 = lit ''WAVE''"
    "bytes_at rawData 12 4 = lit ''fmt ''" "read_u16 rawData 20 \<noteq> 1"
  shows "parse_found_data rawData outData = Returned RESULT_INVALID_FORMAT_TYPE outData"
  using assms by (simp add: parse_found_data_def in_bounds_def Let_def)

lemma parse_riff:
  assumes "4 \<le> length rawData" "bytes_at rawData 0 4 \<noteq> lit ''RIFF''"
  shows "parse_found_data rawData outData = Returned RESULT_INVALID_RIFF_MAGIC outData"
  using assms by (simp add: parse_found_data_def in_bounds_def)


subsection \<open>The laid-out file\<close>

lemmas layout_defs = wav_layout_def lit_def u32_bytes_def u16_bytes_def bytes_at_def

lemma length_wav_layout:
  "length (wav_layout cs af ch sr br ba bps dsz payload) = 44 + length payload"
  by (simp add: layout_defs)

lemma layout_magic:
  "bytes_at (wav_layout cs af ch sr br ba bps dsz payload) 0 4 = lit ''RIFF''"
  "bytes_at (wav_layout cs af ch sr br ba bps dsz payload) 8 4 = lit ''WAVE''"
  "bytes_at (wav_layout cs af ch sr br ba bps dsz payload) 12 4 = lit ''fmt ''"
  by (simp_all add: layout_defs)

lemma layout_fields:
  "read_u16 (wav_layout cs af ch sr br ba bps dsz payload) 20 = af"
  "read_u16 (wav_layout cs af ch sr br ba bps dsz payload) 22 = ch"
  "read_u32 (wav_layout cs af ch sr br ba bps dsz payload) 24 = sr"
  "read_u16 (wav_layout cs af ch sr br ba bps dsz payload) 34 = bps"
proof -
  let ?f = "wav_layout cs af ch sr br ba bps dsz payload"
  have "bytes_at ?f 20 2 = u16_bytes af" "bytes_at ?f 22 2 = u16_bytes ch"
    "bytes_at ?f 24 4 = u32_bytes sr" "bytes_at ?f 34 2 = u16_bytes bps"
    by (simp_all add: layout_defs)
  then show "read_u16 ?f 20 = af" "read_u16 ?f 22 = ch" "read_u32 ?f 24 = sr"
    "read_u16 ?f 34 = bps"
    by (simp_all add: read_u16_def read_u32_def le_nat_u16_bytes le_nat_u32_bytes)
qed

lemma layout_magic_accepted:
  "magic_accepted (wav_layout cs 1 ch sr br ba bps dsz payload)"
  by (simp add: magic_accepted_def length_wav_layout layout_magic layout_fields)

lemma minimal_wav_accepted: "header_accepted (minimal_wav cs n payload)"
  by (simp add: header_accepted_def minimal_wav_def layout_magic_accepted layout_fields
      ContainsSampleRate_def ContainsChannel_def ContainsBPS_def
      ALLOWED_SAMPLE_RATES_def ALLOWED_CHANNELS_def ALLOWED_BPS_def)

lemma minimal_wav_declared_size:
  "le_nat (bytes_at (minimal_wav cs n payload) 40 4) = unat n"
proof -
  have "bytes_at (minimal_wav cs n payload) 40 4 = u32_bytes n"
    by (simp add: minimal_wav_def layout_defs)
  then show ?thesis by (simp add: le_nat_u32_bytes)
qed

lemma minimal_wav_scan_prefix:
  assumes "44 < length (minimal_wav cs n payload)"
  shows "find_data (minimal_wav cs n payload) 12 = find_data (minimal_wav cs n payload) 36"
  using assms
  by (simp add: find_data_skip minimal_wav_def layout_defs)


lemma minimal_wav_scan:
  assumes "payload \<noteq> []"
  shows "find_data (minimal_wav cs n payload) 12 = (44, unat n)"
proof -
  let ?f = "minimal_wav cs n payload"
  have len: "length ?f = 44 + length payload"
    by (simp add: minimal_wav_def length_wav_layout)
  with assms have long: "44 < length ?f" by simp
  have "bytes_at ?f 36 4 = lit ''data''"
    by (simp add: minimal_wav_def layout_defs)
  with long have "find_data ?f 36 = (36 + 8, le_nat (bytes_at ?f (36 + 4) 4))"
    by (intro find_data_hit) simp_all
  then have "find_data ?f 36 = (44, unat n)"
    by (simp add: minimal_wav_declared_size)
  with minimal_wav_scan_prefix [OF long] show ?thesis by simp
qed

lemma minimal_wav_payload:
  "bytes_at (minimal_wav cs n payload) 44 k = take k payload"
  by (simp add: minimal_wav_def layout_defs)

lemma small_fits: "n < 2 ^ 33 \<Longrightarrow> n \<le> vector_max_size"
  by (simp add: vector_max_size_def)

lemma loads_wav_file: "length bs < 2 ^ 33 \<Longrightarrow> loads (wav_file bs)"
  by (simp add: loads_def small_fits)

lemma minimal_wav_length: "length (minimal_wav cs n payload) = 44 + length payload"
  by (simp add: minimal_wav_def length_wav_layout)

lemma Convert_WAV_loads:
  assumes "loads inFile" "12 < length (fv_bytes inFile)"
  shows "Convert_WAV inFile outData = parse_found_data (fv_bytes inFile) outData"
proof -
  from assms(1) have "readable_wav inFile" "\<not> vector_max_size < length (fv_bytes inFile)"
    by (simp_all add: loads_def)
  with assms(2) show ?thesis
    by (auto simp add: Convert_WAV_readable)
qed

lemma minimal_wav_empty_scan: "find_data (minimal_wav cs n []) 12 = (0, 0)"
  by (simp add: find_data_skip find_data_end minimal_wav_def layout_defs)

lemma find_data_zero_iff:
  "fst (find_data rawData i) = 0 \<longleftrightarrow>
     (\<forall>j. i \<le> j \<and> j + 8 < length rawData \<longrightarrow> bytes_at rawData j 4 \<noteq> lit ''data'')"
proof
  assume "\<forall>j. i \<le> j \<and> j + 8 < length rawData \<longrightarrow> bytes_at rawData j 4 \<noteq> lit ''data''"
  then show "fst (find_data rawData i) = 0"
    by (simp add: find_data_no_match)
next
  assume "fst (find_data rawData i) = 0"
  then show "\<forall>j. i \<le> j \<and> j + 8 < length rawData \<longrightarrow> bytes_at rawData j 4 \<noteq> lit ''data''"
  proof (induction rawData i rule: find_data.induct)
    case (1 rawData i)
    show ?case
    proof (cases "i + 8 < length rawData")
      case False
      then show ?thesis by auto
    next
      case True
      have ne: "bytes_at rawData i 4 \<noteq> lit ''data''"
      proof
        assume "bytes_at rawData i 4 = lit ''data''"
        with True "1.prems" show False by (simp add: find_data_hit)
      qed
      with True "1.prems" have "fst (find_data rawData (i + 1)) = 0"
        by (simp add: find_data_skip)
      from "1.IH" [OF True ne this]
      have later: "\<forall>j. i + 1 \<le> j \<and> j + 8 < length rawData
                      \<longrightarrow> bytes_at rawData j 4 \<noteq> lit ''data''" .
      show ?thesis
      proof (intro allI impI)
        fix j
        assume j: "i \<le> j \<and> j + 8 < length rawData"
        show "bytes_at rawData j 4 \<noteq> lit ''data''"
        proof (cases "j = i")
          case True
          with ne show ?thesis by simp
        next
          case False
          with j have "i + 1 \<le> j \<and> j + 8 < length rawData" by simp
          with later show ?thesis by blast
        qed
      qed
    qed
  qed
qed

lemma loads_layout:
  "length payload < 2 ^ 32 \<Longrightarrow> loads (wav_file (wav_layout cs af ch sr br ba bps dsz payload))"
  by (intro loads_wav_file) (simp add: length_wav_layout)

section \<open>The claims\<close>

text \<open>
  Claim C1 as written covers every declared size \<open>N\<close>, also \<open>N = 0\<close>. The 44-byte file
  with declared size 0 and no payload is not decoded: the scan examines only positions
  \<open>i\<close> with \<open>i + 8 < 44\<close>, the marker at offset 36 is never looked at, and the result is
  \<^verbatim>\<open>RESULT_MISSING_DATA_CHUNK\<close>.
\<close>

theorem C1_counterexample:
  "Convert_WAV (wav_file (minimal_wav 36 0 [])) empty_slot =
     Returned RESULT_MISSING_DATA_CHUNK empty_slot"
proof -
  let ?f = "minimal_wav 36 0 []"
  have l: "loads (wav_file ?f)"
    by (simp add: loads_wav_file minimal_wav_length)
  then have fits: "length ?f \<le> vector_max_size"
    by (simp add: loads_def)
  have "Convert_WAV (wav_file ?f) empty_slot = parse_found_data ?f empty_slot"
    using Convert_WAV_loads [OF l] by (simp add: minimal_wav_length)
  then show ?thesis
    by (simp add: parse_header_accepted [OF minimal_wav_accepted fits minimal_wav_empty_scan])
qed

text \<open>
  Claim C1, amended to \<open>N \<ge> 1\<close>. For every readable \<^verbatim>\<open>.wav\<close> file that consists of the
  minimal 44-byte PCM header (\<^verbatim>\<open>RIFF\<close> at 0, \<^verbatim>\<open>WAVE\<close> at 8, \<^verbatim>\<open>fmt \<close> at 12, audio format 1
  at 20, 2 channels at 22, sample rate 44100 at 24, 16 bits per sample at 34, \<^verbatim>\<open>data\<close> at
  36 with declared size \<open>n\<close> at 40; the chunk size at offset 4 may be anything) followed
  by exactly \<open>n\<close> payload bytes, \<open>n\<close> not zero, \<^verbatim>\<open>Convert_WAV\<close> returns success and the
  output slot holds exactly the payload with sample rate 44100, 16 bits per sample and
  2 channels.
\<close>

theorem C1_minimal_wav_decodes:
  assumes "readable_wav inFile"
    and "fv_bytes inFile = minimal_wav chunkSize n payload"
    and "length payload = unat n"
    and "n \<noteq> 0"
  shows "Convert_WAV inFile outData =
           Returned RESULT_SUCCESS
             \<lparr> pcmData = payload, sampleRate = 44100, bitsPerSample = 16, channels = 2 \<rparr>"
proof -
  let ?f = "minimal_wav chunkSize n payload"
  have len: "length ?f = 44 + unat n"
    using assms(3) by (simp add: minimal_wav_def length_wav_layout)
  have "unat n < 2 ^ 32"
    using unsigned_less [of n, where ?'a = nat] by simp
  with len have fits: "length ?f \<le> vector_max_size"
    by (intro small_fits) simp
  from assms(3,4) have "payload \<noteq> []"
    by (auto simp add: unat_eq_0)
  then have scan: "find_data ?f 12 = (44, unat n)"
    by (rule minimal_wav_scan)
  have "parse_found_data ?f outData =
          Returned RESULT_SUCCESS
            \<lparr> pcmData = payload, sampleRate = 44100, bitsPerSample = 16, channels = 2 \<rparr>"
    using assms(3) len
    by (simp add: parse_header_accepted [OF minimal_wav_accepted fits scan]
        minimal_wav_payload)
       (simp add: minimal_wav_def layout_fields)
  with assms(1,2) len fits show ?thesis
    by (simp add: Convert_WAV_readable)
qed

text \<open>
  The amended C1 at a file with the two payload bytes 7 and 9.
\<close>

theorem C1_minimal_wav_decodes_witness:
  "readable_wav (wav_file (minimal_wav 38 2 [7, 9]))
   \<and> fv_bytes (wav_file (minimal_wav 38 2 [7, 9])) = minimal_wav 38 2 [7, 9]
   \<and> length [7, 9 :: u8] = unat (2 :: u32)
   \<and> (2 :: u32) \<noteq> 0
   \<and> Convert_WAV (wav_file (minimal_wav 38 2 [7, 9])) empty_slot =
         Returned RESULT_SUCCESS
           \<lparr> pcmData = [7, 9], sampleRate = 44100, bitsPerSample = 16, channels = 2 \<rparr>"
  using C1_minimal_wav_decodes [of "wav_file (minimal_wav 38 2 [7, 9])" 38 2 "[7, 9]" empty_slot]
  by simp

text \<open>
  Claim C2. For every loaded file that passes all header checks and whose scan finds a
  \<^verbatim>\<open>data\<close> marker (payload extraction is reached: a found offset is never zero and always
  below the buffer size), \<^verbatim>\<open>Convert_WAV\<close> returns success and the payload is the run of
  bytes from \<open>dataOffset\<close> of length \<open>min (file size) (dataOffset + dataSize) - dataOffset\<close>.
  That length never exceeds the number of bytes present from \<open>dataOffset\<close> onward, and it
  equals that number whenever the declared size exceeds it.
\<close>

theorem C2_payload_clamped:
  assumes "loads inFile"
    and "header_accepted (fv_bytes inFile)"
    and "find_data (fv_bytes inFile) 12 = (dataOffset, dataSize)"
    and "dataOffset \<noteq> 0"
  shows "Convert_WAV inFile outData =
           Returned RESULT_SUCCESS
             \<lparr> pcmData = bytes_at (fv_bytes inFile) dataOffset
                           (min (length (fv_bytes inFile)) (dataOffset + dataSize) - dataOffset),
               sampleRate = read_u32 (fv_bytes inFile) 24,
               bitsPerSample = ucast (read_u16 (fv_bytes inFile) 34),
               channels = ucast (read_u16 (fv_bytes inFile) 22) \<rparr>
         \<and> length (bytes_at (fv_bytes inFile) dataOffset
              (min (length (fv_bytes inFile)) (dataOffset + dataSize) - dataOffset))
             = min (length (fv_bytes inFile)) (dataOffset + dataSize) - dataOffset
         \<and> min (length (fv_bytes inFile)) (dataOffset + dataSize) - dataOffset
             \<le> length (fv_bytes inFile) - dataOffset
         \<and> (length (fv_bytes inFile) - dataOffset < dataSize \<longrightarrow>
              min (length (fv_bytes inFile)) (dataOffset + dataSize) - dataOffset
                = length (fv_bytes inFile) - dataOffset)"
proof -
  let ?raw = "fv_bytes inFile"
  from assms(1) have rd: "readable_wav inFile" and fits: "length ?raw \<le> vector_max_size"
    by (simp_all add: loads_def)
  from assms(2) have long: "36 \<le> length ?raw"
    by (simp add: header_accepted_def magic_accepted_def)
  have "Convert_WAV inFile outData = parse_found_data ?raw outData"
    using long by (intro Convert_WAV_loads [OF assms(1)]) simp
  with assms(4) have 1: "Convert_WAV inFile outData =
           Returned RESULT_SUCCESS
             \<lparr> pcmData = bytes_at ?raw dataOffset
                           (min (length ?raw) (dataOffset + dataSize) - dataOffset),
               sampleRate = read_u32 ?raw 24,
               bitsPerSample = ucast (read_u16 ?raw 34),
               channels = ucast (read_u16 ?raw 22) \<rparr>"
    by (simp add: parse_header_accepted [OF assms(2) fits assms(3)])
  have 2: "length (bytes_at ?raw dataOffset (min (length ?raw) (dataOffset + dataSize) - dataOffset))
             = min (length ?raw) (dataOffset + dataSize) - dataOffset"
    by (simp add: bytes_at_def)
  have 3: "min (length ?raw) (dataOffset + dataSize) - dataOffset \<le> length ?raw - dataOffset"
    by simp
  have 4: "length ?raw - dataOffset < dataSize \<longrightarrow>
              min (length ?raw) (dataOffset + dataSize) - dataOffset = length ?raw - dataOffset"
    by auto
  from 1 2 3 4 show ?thesis by blast
qed

text \<open>
  C2 at a file that declares five payload bytes and holds one.
\<close>

theorem C2_payload_clamped_witness:
  "loads (wav_file (minimal_wav 41 5 [9]))
   \<and> header_accepted (fv_bytes (wav_file (minimal_wav 41 5 [9])))
   \<and> find_data (fv_bytes (wav_file (minimal_wav 41 5 [9]))) 12 = (44, 5)
   \<and> (44 :: nat) \<noteq> 0
   \<and> length (minimal_wav 41 5 [9]) - 44 < (5 :: nat)
   \<and> Convert_WAV (wav_file (minimal_wav 41 5 [9])) empty_slot =
        Returned RESULT_SUCCESS
          \<lparr> pcmData = [9], sampleRate = 44100, bitsPerSample = 16, channels = 2 \<rparr>"
proof -
  let ?f = "minimal_wav 41 5 [9]"
  have a: "loads (wav_file ?f)"
    by (simp add: loads_wav_file minimal_wav_length)
  have b: "header_accepted (fv_bytes (wav_file ?f))"
    by (simp add: minimal_wav_accepted)
  have c: "find_data (fv_bytes (wav_file ?f)) 12 = (44, 5)"
    by (simp add: minimal_wav_scan)
  have d: "(44 :: nat) \<noteq> 0" by simp
  from C2_payload_clamped [OF a b c d, of empty_slot] a b c
  show ?thesis
    by (simp add: minimal_wav_length minimal_wav_payload)
       (simp add: minimal_wav_def layout_fields)
qed

text \<open>
  Claim C3. For every readable \<^verbatim>\<open>.wav\<close> file shorter than 13 bytes, \<^verbatim>\<open>Convert_WAV\<close> returns
  \<^verbatim>\<open>RESULT_FILE_EMPTY\<close> when the size is 0 and \<^verbatim>\<open>RESULT_UNSUPPORTED_FILE_SIZE\<close> for the
  sizes 1 to 12, with the output slot unchanged; the run is a \<open>Returned\<close> one, so no read
  past the end of a buffer takes place.
\<close>

theorem C3_short_file:
  assumes "readable_wav inFile"
    and "length (fv_bytes inFile) < 13"
  shows "Convert_WAV inFile outData =
           Returned (if length (fv_bytes inFile) = 0 then RESULT_FILE_EMPTY
                     else RESULT_UNSUPPORTED_FILE_SIZE) outData
         \<and> (\<forall>u. Convert_WAV inFile outData \<noteq> Undefined u)"
  using assms by (simp add: Convert_WAV_readable)

text \<open>
  C3 at a four-byte file and at the empty file.
\<close>

theorem C3_short_file_witness:
  "readable_wav (wav_file (lit ''RIFF'')) \<and> length (fv_bytes (wav_file (lit ''RIFF''))) < 13
   \<and> Convert_WAV (wav_file (lit ''RIFF'')) empty_slot =
        Returned RESULT_UNSUPPORTED_FILE_SIZE empty_slot
   \<and> readable_wav (wav_file []) \<and> length (fv_bytes (wav_file [])) < 13
   \<and> Convert_WAV (wav_file []) empty_slot = Returned RESULT_FILE_EMPTY empty_slot"
  using C3_short_file [of "wav_file (lit ''RIFF'')" empty_slot]
    C3_short_file [of "wav_file []" empty_slot]
  by (simp add: lit_def)

text \<open>
  Claim C4 as written expects \<^verbatim>\<open>RESULT_FILE_NOT_FOUND\<close> for a path that exists and is not
  a regular file. For a directory named \<^verbatim>\<open>*.wav\<close> the source returns
  \<^verbatim>\<open>RESULT_INVALID_EXTENSION\<close>.
\<close>

theorem C4_counterexample:
  "fv_exists directory_wav \<and> \<not> fv_is_regular_file directory_wav
   \<and> Convert_WAV directory_wav empty_slot = Returned RESULT_INVALID_EXTENSION empty_slot"
  by (simp add: directory_wav_def wav_file_def Convert_WAV_def)

text \<open>
  Claim C4, amended. For every path that exists on the filesystem and does not resolve to
  a regular file, \<^verbatim>\<open>Convert_WAV\<close> fails with \<^verbatim>\<open>RESULT_INVALID_EXTENSION\<close> and leaves the
  output slot as it was: the test \<^verbatim>\<open>!is_regular_file(inFile)\<close> shares its branch with the
  two extension tests.
\<close>

theorem C4_not_regular_file:
  assumes "fv_exists inFile" and "\<not> fv_is_regular_file inFile"
  shows "Convert_WAV inFile outData = Returned RESULT_INVALID_EXTENSION outData"
  using assms by (simp add: Convert_WAV_def)

text \<open>
  The amended C4 at the directory.
\<close>

theorem C4_not_regular_file_witness:
  "fv_exists directory_wav \<and> \<not> fv_is_regular_file directory_wav
   \<and> Convert_WAV directory_wav used_slot = Returned RESULT_INVALID_EXTENSION used_slot"
  using C4_not_regular_file [of directory_wav used_slot]
  by (simp add: directory_wav_def wav_file_def)

text \<open>
  Claim C5 as written holds whatever the length of the file. A readable four-byte file
  \<^verbatim>\<open>XXXX\<close> does not start with \<^verbatim>\<open>RIFF\<close>, and the result is
  \<^verbatim>\<open>RESULT_UNSUPPORTED_FILE_SIZE\<close>: the size checks come before the first comparison.
\<close>

theorem C5_counterexample:
  "readable_wav (wav_file (lit ''XXXX''))
   \<and> bytes_at (lit ''XXXX'') 0 4 \<noteq> lit ''RIFF''
   \<and> Convert_WAV (wav_file (lit ''XXXX'')) empty_slot =
        Returned RESULT_UNSUPPORTED_FILE_SIZE empty_slot"
  by (simp add: Convert_WAV_readable lit_def bytes_at_def)

text \<open>
  Claim C5, amended. For every loaded file of more than 12 bytes whose bytes 0 to 3 are
  not the literal \<^verbatim>\<open>RIFF\<close>, \<^verbatim>\<open>Convert_WAV\<close> returns \<^verbatim>\<open>RESULT_INVALID_RIFF_MAGIC\<close>, whatever
  the rest of the content is.
\<close>

theorem C5_riff_magic:
  assumes "loads inFile"
    and "12 < length (fv_bytes inFile)"
    and "bytes_at (fv_bytes inFile) 0 4 \<noteq> lit ''RIFF''"
  shows "Convert_WAV inFile outData = Returned RESULT_INVALID_RIFF_MAGIC outData"
  using assms by (simp add: Convert_WAV_loads parse_riff)

text \<open>
  The amended C5 at a 16-byte file whose other literals are in place.
\<close>

theorem C5_riff_magic_witness:
  "loads (wav_file (lit ''XXXXxxxxWAVEfmt ''))
   \<and> 12 < length (fv_bytes (wav_file (lit ''XXXXxxxxWAVEfmt '')))
   \<and> bytes_at (fv_bytes (wav_file (lit ''XXXXxxxxWAVEfmt ''))) 0 4 \<noteq> lit ''RIFF''
   \<and> Convert_WAV (wav_file (lit ''XXXXxxxxWAVEfmt '')) empty_slot =
        Returned RESULT_INVALID_RIFF_MAGIC empty_slot"
proof -
  have a: "loads (wav_file (lit ''XXXXxxxxWAVEfmt ''))"
    by (simp add: loads_wav_file lit_def)
  have b: "12 < length (fv_bytes (wav_file (lit ''XXXXxxxxWAVEfmt '')))"
    by (simp add: lit_def)
  have c: "bytes_at (fv_bytes (wav_file (lit ''XXXXxxxxWAVEfmt ''))) 0 4 \<noteq> lit ''RIFF''"
    by (simp add: lit_def bytes_at_def)
  from C5_riff_magic [OF a b c] a b c show ?thesis by simp
qed

text \<open>
  Claim C6. For every loaded file that holds the whole fixed-offset header (at least 36
  bytes, so that it has a sample rate, a channel count and a bit depth) and passes the
  three magic checks and the format-type check: a sample rate outside its allow-list
  gives \<^verbatim>\<open>RESULT_UNSUPPORTED_SAMPLE_RATE\<close> whatever the other two fields are; otherwise a
  channel count outside its allow-list gives \<^verbatim>\<open>RESULT_UNSUPPORTED_CHANNELS\<close> whatever the bit
  depth is; otherwise a bit depth outside its allow-list gives
  \<^verbatim>\<open>RESULT_UNSUPPORTED_BITS_PER_SAMPLE\<close>.
\<close>

theorem C6_allow_list_priority:
  assumes "loads inFile"
    and "magic_accepted (fv_bytes inFile)"
  shows "(\<not> ContainsSampleRate (read_u32 (fv_bytes inFile) 24) \<longrightarrow>
            Convert_WAV inFile outData = Returned RESULT_UNSUPPORTED_SAMPLE_RATE outData)
       \<and> (ContainsSampleRate (read_u32 (fv_bytes inFile) 24)
            \<and> \<not> ContainsChannel (ucast (read_u16 (fv_bytes inFile) 22)) \<longrightarrow>
            Convert_WAV inFile outData = Returned RESULT_UNSUPPORTED_CHANNELS outData)
       \<and> (ContainsSampleRate (read_u32 (fv_bytes inFile) 24)
            \<and> ContainsChannel (ucast (read_u16 (fv_bytes inFile) 22))
            \<and> \<not> ContainsBPS (ucast (read_u16 (fv_bytes inFile) 34)) \<longrightarrow>
            Convert_WAV inFile outData = Returned RESULT_UNSUPPORTED_BITS_PER_SAMPLE outData)"
proof -
  from assms(2) have "12 < length (fv_bytes inFile)"
    by (simp add: magic_accepted_def)
  then have "Convert_WAV inFile outData = parse_found_data (fv_bytes inFile) outData"
    by (rule Convert_WAV_loads [OF assms(1)])
  then show ?thesis
    by (simp add: parse_magic_accepted [OF assms(2)])
qed

text \<open>
  C6 at three files: all three fields invalid (22050 Hz, 3 channels, 8 bits); sample rate
  valid, the other two invalid; only the bit depth invalid.
\<close>

theorem C6_allow_list_priority_witness:
  "loads (wav_file (wav_layout 37 1 3 22050 66150 3 8 1 [0]))
   \<and> magic_accepted (fv_bytes (wav_file (wav_layout 37 1 3 22050 66150 3 8 1 [0])))
   \<and> \<not> ContainsSampleRate 22050 \<and> \<not> ContainsChannel 3 \<and> \<not> ContainsBPS 8
   \<and> Convert_WAV (wav_file (wav_layout 37 1 3 22050 66150 3 8 1 [0])) empty_slot =
        Returned RESULT_UNSUPPORTED_SAMPLE_RATE empty_slot
   \<and> loads (wav_file (wav_layout 37 1 3 48000 144000 3 8 1 [0]))
   \<and> magic_accepted (fv_bytes (wav_file (wav_layout 37 1 3 48000 144000 3 8 1 [0])))
   \<and> ContainsSampleRate 48000
   \<and> Convert_WAV (wav_file (wav_layout 37 1 3 48000 144000 3 8 1 [0])) empty_slot =
        Returned RESULT_UNSUPPORTED_CHANNELS empty_slot
   \<and> loads (wav_file (wav_layout 37 1 2 48000 96000 2 8 1 [0]))
   \<and> magic_accepted (fv_bytes (wav_file (wav_layout 37 1 2 48000 96000 2 8 1 [0])))
   \<and> ContainsChannel 2
   \<and> Convert_WAV (wav_file (wav_layout 37 1 2 48000 96000 2 8 1 [0])) empty_slot =
        Returned RESULT_UNSUPPORTED_BITS_PER_SAMPLE empty_slot"
  using
    C6_allow_list_priority [of "wav_file (wav_layout 37 1 3 22050 66150 3 8 1 [0])" empty_slot]
    C6_allow_list_priority [of "wav_file (wav_layout 37 1 3 48000 144000 3 8 1 [0])" empty_slot]
    C6_allow_list_priority [of "wav_file (wav_layout 37 1 2 48000 96000 2 8 1 [0])" empty_slot]
  by (simp add: loads_layout layout_magic_accepted layout_fields
      ContainsSampleRate_def ContainsChannel_def ContainsBPS_def
      ALLOWED_SAMPLE_RATES_def ALLOWED_CHANNELS_def ALLOWED_BPS_def)

text \<open>
  Claim C7. For every loaded file that passes all header and format validations: if the
  literal \<^verbatim>\<open>data\<close> occurs at no position \<open>i\<close> from 12 on with \<open>i + 8\<close> below the buffer
  size, or the data offset the scan produces is zero or not below the buffer size, then
  \<^verbatim>\<open>Convert_WAV\<close> returns \<^verbatim>\<open>RESULT_MISSING_DATA_CHUNK\<close> and leaves the output slot as it was.
\<close>

theorem C7_missing_data_chunk:
  assumes "loads inFile"
    and "header_accepted (fv_bytes inFile)"
    and "(\<forall>i. 12 \<le> i \<and> i + 8 < length (fv_bytes inFile)
              \<longrightarrow> bytes_at (fv_bytes inFile) i 4 \<noteq> lit ''data'')
         \<or> fst (find_data (fv_bytes inFile) 12) = 0
         \<or> length (fv_bytes inFile) \<le> fst (find_data (fv_bytes inFile) 12)"
  shows "Convert_WAV inFile outData = Returned RESULT_MISSING_DATA_CHUNK outData"
proof -
  let ?raw = "fv_bytes inFile"
  obtain off dsz where scan: "find_data ?raw 12 = (off, dsz)"
    by (cases "find_data ?raw 12")
  have "off = 0"
    using assms(3)
  proof (elim disjE)
    assume "\<forall>i. 12 \<le> i \<and> i + 8 < length ?raw \<longrightarrow> bytes_at ?raw i 4 \<noteq> lit ''data''"
    then have "find_data ?raw 12 = (0, 0)" by (rule find_data_no_match)
    with scan show ?thesis by simp
  next
    assume "fst (find_data ?raw 12) = 0"
    with scan show ?thesis by simp
  next
    assume "length ?raw \<le> fst (find_data ?raw 12)"
    with scan find_data_range [OF scan] show ?thesis by auto
  qed
  from assms(1) have fits: "length ?raw \<le> vector_max_size"
    by (simp add: loads_def)
  from assms(2) have "12 < length ?raw"
    by (simp add: header_accepted_def magic_accepted_def)
  then have "Convert_WAV inFile outData = parse_found_data ?raw outData"
    by (rule Convert_WAV_loads [OF assms(1)])
  with \<open>off = 0\<close> show ?thesis
    by (simp add: parse_header_accepted [OF assms(2) fits scan])
qed

text \<open>
  C7 at the 44-byte file without payload, where no scanned position holds the literal.
\<close>

theorem C7_missing_data_chunk_witness:
  "loads (wav_file (minimal_wav 36 0 []))
   \<and> header_accepted (fv_bytes (wav_file (minimal_wav 36 0 [])))
   \<and> \<not> (\<exists>i. 12 \<le> i \<and> i + 8 < length (fv_bytes (wav_file (minimal_wav 36 0 [])))
            \<and> bytes_at (fv_bytes (wav_file (minimal_wav 36 0 []))) i 4 = lit ''data'')
   \<and> Convert_WAV (wav_file (minimal_wav 36 0 [])) used_slot =
        Returned RESULT_MISSING_DATA_CHUNK used_slot"
proof -
  let ?f = "wav_file (minimal_wav 36 0 [])"
  have a: "loads ?f"
    by (simp add: loads_wav_file minimal_wav_length)
  have b: "header_accepted (fv_bytes ?f)"
    by (simp add: minimal_wav_accepted)
  have "fst (find_data (fv_bytes ?f) 12) = 0"
    by (simp add: minimal_wav_empty_scan)
  then have c: "\<forall>i. 12 \<le> i \<and> i + 8 < length (fv_bytes ?f)
                  \<longrightarrow> bytes_at (fv_bytes ?f) i 4 \<noteq> lit ''data''"
    by (simp only: find_data_zero_iff)
  then have c': "\<not> (\<exists>i. 12 \<le> i \<and> i + 8 < length (fv_bytes ?f)
                  \<and> bytes_at (fv_bytes ?f) i 4 = lit ''data'')"
    by blast
  from C7_missing_data_chunk [OF a b disjI1, OF c, of used_slot] a b c'
  show ?thesis by blast
qed

text \<open>
  Claim C8. Whenever \<^verbatim>\<open>Convert_WAV\<close> returns an outcome other than \<^verbatim>\<open>RESULT_SUCCESS\<close>, the
  output slot after the call is the slot before the call: only the success path assigns
  it.
\<close>

theorem C8_output_untouched:
  assumes "Convert_WAV inFile outData = Returned r out'"
    and "r \<noteq> RESULT_SUCCESS"
  shows "out' = outData"
  using assms
  by (auto simp add: Convert_WAV_def Let_def split: if_splits
      dest: parse_found_data_frame)

text \<open>
  C8 at a call that fails on the sample rate, with a slot that already held data.
\<close>

theorem C8_output_untouched_witness:
  "Convert_WAV (wav_file (wav_layout 37 1 2 22050 88200 4 16 1 [0])) used_slot =
     Returned RESULT_UNSUPPORTED_SAMPLE_RATE used_slot
   \<and> RESULT_UNSUPPORTED_SAMPLE_RATE \<noteq> RESULT_SUCCESS"
proof -
  let ?f = "wav_layout 37 1 2 22050 88200 4 16 1 [0]"
  have "Convert_WAV (wav_file ?f) used_slot = parse_found_data ?f used_slot"
    using Convert_WAV_loads [of "wav_file ?f" used_slot]
    by (simp add: loads_layout length_wav_layout)
  then obtain out' where run:
    "Convert_WAV (wav_file ?f) used_slot = Returned RESULT_UNSUPPORTED_SAMPLE_RATE out'"
    by (simp add: parse_magic_accepted [OF layout_magic_accepted] layout_fields
        ContainsSampleRate_def ALLOWED_SAMPLE_RATES_def)
  have ne: "RESULT_UNSUPPORTED_SAMPLE_RATE \<noteq> RESULT_SUCCESS" by simp
  from C8_output_untouched [OF run ne] run ne show ?thesis by simp
qed

text \<open>
  Claim C9. For every input, \<^verbatim>\<open>Convert_WAV\<close> does not return
  \<^verbatim>\<open>RESULT_UNSUPPORTED_WAV_FORMAT\<close>; and for every loaded file that holds the audio-format
  field (at least 22 bytes) and passes the three magic checks, any audio-format code
  other than 1 gives \<^verbatim>\<open>RESULT_INVALID_FORMAT_TYPE\<close>.
\<close>

theorem C9_reserved_outcome_unreachable:
  "(\<forall>out'. Convert_WAV inFile outData \<noteq> Returned RESULT_UNSUPPORTED_WAV_FORMAT out')
   \<and> (loads inFile \<and> 22 \<le> length (fv_bytes inFile)
        \<and> bytes_at (fv_bytes inFile) 0 4 = lit ''RIFF''
        \<and> bytes_at (fv_bytes inFile) 8 4 = lit ''WAVE''
        \<and> bytes_at (fv_bytes inFile) 12 4 = lit ''fmt ''
        \<and> read_u16 (fv_bytes inFile) 20 \<noteq> 1
      \<longrightarrow> Convert_WAV inFile outData = Returned RESULT_INVALID_FORMAT_TYPE outData)"
proof (intro conjI allI impI)
  fix out'
  show "Convert_WAV inFile outData \<noteq> Returned RESULT_UNSUPPORTED_WAV_FORMAT out'"
    by (simp add: Convert_WAV_def Let_def parse_found_data_not_reserved)
next
  assume h: "loads inFile \<and> 22 \<le> length (fv_bytes inFile)
        \<and> bytes_at (fv_bytes inFile) 0 4 = lit ''RIFF''
        \<and> bytes_at (fv_bytes inFile) 8 4 = lit ''WAVE''
        \<and> bytes_at (fv_bytes inFile) 12 4 = lit ''fmt ''
        \<and> read_u16 (fv_bytes inFile) 20 \<noteq> 1"
  then have "Convert_WAV inFile outData = parse_found_data (fv_bytes inFile) outData"
    by (intro Convert_WAV_loads) simp_all
  with h show "Convert_WAV inFile outData = Returned RESULT_INVALID_FORMAT_TYPE outData"
    by (simp add: parse_format_type)
qed

text \<open>
  C9 at a file with audio-format code 3 (IEEE float).
\<close>

theorem C9_reserved_outcome_unreachable_witness:
  "loads (wav_file (wav_layout 37 3 2 44100 352800 8 32 1 [0]))
   \<and> 22 \<le> length (fv_bytes (wav_file (wav_layout 37 3 2 44100 352800 8 32 1 [0])))
   \<and> read_u16 (fv_bytes (wav_file (wav_layout 37 3 2 44100 352800 8 32 1 [0]))) 20 = 3
   \<and> Convert_WAV (wav_file (wav_layout 37 3 2 44100 352800 8 32 1 [0])) empty_slot =
        Returned RESULT_INVALID_FORMAT_TYPE empty_slot
   \<and> Convert_WAV (wav_file (wav_layout 37 3 2 44100 352800 8 32 1 [0])) empty_slot \<noteq>
        Returned RESULT_UNSUPPORTED_WAV_FORMAT empty_slot"
  using C9_reserved_outcome_unreachable
          [of "wav_file (wav_layout 37 3 2 44100 352800 8 32 1 [0])" empty_slot]
  by (simp add: loads_layout length_wav_layout layout_magic layout_fields)

text \<open>
  Claim C10 says that after the minimum-size check every fixed-offset header read stays
  inside the loaded buffer. The source does not keep that promise: every loaded file of
  13 to 15 bytes that starts \<^verbatim>\<open>RIFF\<close>, four bytes, \<^verbatim>\<open>WAVE\<close> passes the size check, and the
  comparison of four bytes at offset 12 then reads past the end of the buffer.
\<close>

theorem C10_header_read_past_end:
  assumes "loads inFile"
    and "12 < length (fv_bytes inFile)"
    and "length (fv_bytes inFile) < 16"
    and "bytes_at (fv_bytes inFile) 0 4 = lit ''RIFF''"
    and "bytes_at (fv_bytes inFile) 8 4 = lit ''WAVE''"
  shows "\<not> in_bounds (fv_bytes inFile) 12 4
         \<and> Convert_WAV inFile outData = Undefined (ReadPastEnd 12 4)"
proof -
  have "Convert_WAV inFile outData = parse_found_data (fv_bytes inFile) outData"
    by (rule Convert_WAV_loads [OF assms(1,2)])
  with assms(2-5) show ?thesis
    by (simp add: parse_found_data_def in_bounds_def)
qed

text \<open>
  The 13-byte file \<^verbatim>\<open>RIFFxxxxWAVEf\<close>: the run ends in the read of four bytes at offset 12.
\<close>

theorem C10_header_read_past_end_witness:
  "loads (wav_file (lit ''RIFFxxxxWAVEf''))
   \<and> length (fv_bytes (wav_file (lit ''RIFFxxxxWAVEf''))) = 13
   \<and> Convert_WAV (wav_file (lit ''RIFFxxxxWAVEf'')) empty_slot = Undefined (ReadPastEnd 12 4)"
proof -
  let ?f = "wav_file (lit ''RIFFxxxxWAVEf'')"
  have a: "loads ?f"
    by (simp add: loads_wav_file lit_def)
  have b: "length (fv_bytes ?f) = 13"
    by (simp add: lit_def)
  have c: "bytes_at (fv_bytes ?f) 0 4 = lit ''RIFF''" "bytes_at (fv_bytes ?f) 8 4 = lit ''WAVE''"
    by (simp_all add: lit_def bytes_at_def)
  from C10_header_read_past_end [OF a _ _ c, of empty_slot] a b
  show ?thesis by simp
qed

end
